theory Spec2Isabelle
  imports Complex_Main "HOL-Library.AList" "HOL-Library.Multiset"
    "HOL-Library.List_Lexorder" "HOL-Library.Product_Lexorder"
begin

section \<open>Text\<close>

text \<open>
  A Python \<open>str\<close> is a sequence of code points; it is modelled as a list of naturals.
  ASCII literals of the source are written through \<open>u\<close>, Cyrillic literals as their code
  points.
\<close>

type_synonym ustring = "nat list"

definition u :: "string \<Rightarrow> ustring" where
  "u s = map of_char s"

text \<open>\<open>str.isspace\<close> of one code point: the code points that \<open>str.strip()\<close> removes.\<close>

definition py_isspace :: "nat \<Rightarrow> bool" where
  "py_isspace c \<longleftrightarrow>
     (9 \<le> c \<and> c \<le> 13) \<or> (28 \<le> c \<and> c \<le> 32) \<or> c = 133 \<or> c = 160 \<or> c = 5760
     \<or> (8192 \<le> c \<and> c \<le> 8202) \<or> c = 8232 \<or> c = 8233 \<or> c = 8239 \<or> c = 8287 \<or> c = 12288"

definition strip :: "ustring \<Rightarrow> ustring" where
  "strip s = rev (dropWhile py_isspace (rev (dropWhile py_isspace s)))"

text \<open>
  \<open>str.lower()\<close>, code point by code point, for the Latin capitals \<open>A..Z\<close> and the Cyrillic
  capitals U+0400..U+042F, which are the alphabets of the source's literals. Other code points
  are left as they are: the case tables of the rest of Unicode are not modelled.
\<close>

definition lower_cp :: "nat \<Rightarrow> nat" where
  "lower_cp c = (if 65 \<le> c \<and> c \<le> 90 then c + 32
                 else if 1040 \<le> c \<and> c \<le> 1071 then c + 32
                 else if 1024 \<le> c \<and> c \<le> 1039 then c + 80
                 else c)"

definition lower :: "ustring \<Rightarrow> ustring" where
  "lower s = map lower_cp s"

definition startswith :: "ustring \<Rightarrow> ustring \<Rightarrow> bool" where
  "startswith s p \<longleftrightarrow> take (length p) s = p"

definition endswith :: "ustring \<Rightarrow> ustring \<Rightarrow> bool" where
  "endswith s p \<longleftrightarrow> length p \<le> length s \<and> drop (length s - length p) s = p"

text \<open>\<open>p in s\<close> for strings: \<open>p\<close> occurs in \<open>s\<close> as a contiguous run.\<close>

fun contains :: "ustring \<Rightarrow> ustring \<Rightarrow> bool" where
  "contains [] p = (p = [])"
| "contains (x # xs) p = (startswith (x # xs) p \<or> contains xs p)"

text \<open>\<open>s.replace(c, r)\<close> where the pattern \<open>c\<close> is one code point, as at every call in the source.\<close>

definition replace_cp :: "nat \<Rightarrow> ustring \<Rightarrow> ustring \<Rightarrow> ustring" where
  "replace_cp c r s = concat (map (\<lambda>x. if x = c then r else [x]) s)"

text \<open>\<open>s.split(c)\<close> with an explicit one-code-point separator: empty pieces are kept.\<close>

fun split_cp :: "nat \<Rightarrow> ustring \<Rightarrow> ustring list" where
  "split_cp c [] = [] # []"
| "split_cp c (x # xs) =
     (if x = c then [] # split_cp c xs
      else (case split_cp c xs of [] \<Rightarrow> [x] # [] | w # ws \<Rightarrow> (x # w) # ws))"

text \<open>Literals of the source that are not ASCII.\<close>

definition ne_hochu :: ustring where \<comment> \<open>not-wanted, written without a space\<close>
  "ne_hochu = [1085, 1077, 1093, 1086, 1095, 1091]"

definition ne_hochu_sp :: ustring where \<comment> \<open>the same phrase with its space\<close>
  "ne_hochu_sp = [1085, 1077, 32, 1093, 1086, 1095, 1091]"

definition net :: ustring where
  "net = [1085, 1077, 1090]"

definition da :: ustring where
  "da = [1076, 1072]"

definition kandidat :: ustring where \<comment> \<open>the placeholder name of the admin alert\<close>
  "kandidat = [1050, 1072, 1085, 1076, 1080, 1076, 1072, 1090]"

section \<open>Input classifier\<close>

definition norm_str :: "ustring option \<Rightarrow> ustring" where
  "norm_str t = strip (case t of None \<Rightarrow> [] | Some s \<Rightarrow> s)"

definition is_decline :: "ustring \<Rightarrow> bool" where
  "is_decline t = (let t' = replace_cp 32 [] (lower t)
                   in t' \<in> set [ne_hochu, ne_hochu_sp, u ''declined'', net, u ''skip''])"

definition looks_like_domain_without_scheme :: "ustring \<Rightarrow> bool" where
  "looks_like_domain_without_scheme t0 =
     (let t = lower (strip t0) in
      if t = [] then False
      else if startswith t (u ''http://'') \<or> startswith t (u ''https://'') then False
      else if 32 \<in> set t then False
      else if 46 \<in> set t \<and>
              list_ex (\<lambda>suf. endswith t suf)
                [u ''.com'', u ''.net'', u ''.org'', u ''.io'', u ''.ai'', u ''.ru'',
                 u ''.dev'', u ''.app'', u ''.me'', u ''.co''] then True
      else if contains t (u ''.com/'') \<or> contains t (u ''.ru/'') \<or> contains t (u ''.io/'')
              \<or> contains t (u ''.ai/'') \<or> contains t (u ''.dev/'') then True
      else False)"

definition is_reasonable_nda_note :: "ustring \<Rightarrow> bool" where
  "is_reasonable_nda_note t0 =
     (let t = strip t0 in
      if t = [] then False
      else let words = filter (\<lambda>w. strip w \<noteq> []) (split_cp 32 (replace_cp 10 [32] t)) in
        if length t < 8 then False
        else length words \<ge> 2)"

definition is_valid_http_url :: "ustring \<Rightarrow> bool" where
  "is_valid_http_url t0 =
     (let t = strip t0 in startswith t (u ''http://'') \<or> startswith t (u ''https://''))"

section \<open>Conversation state\<close>

datatype ScreeningStates = rules | q1 | q2 | q3 | q4 | q5 | q6 | link

text \<open>
  The per-user FSM context: the current state (\<open>None\<close> is the idle session) and the data
  dictionary with its two keys. \<open>data_answers = None\<close> is a dictionary without the key
  \<open>answers\<close>; the answers keep their insertion order.
\<close>

record fsm =
  cur_state :: "ScreeningStates option"
  data_answers :: "(string \<times> ustring) list option"
  data_last_bot_msg_id :: "int option"

definition clear :: "fsm \<Rightarrow> fsm" where
  "clear s = \<lparr>cur_state = None, data_answers = None, data_last_bot_msg_id = None\<rparr>"

text \<open>\<open>data.get("answers", {})\<close>\<close>

definition get_answers :: "fsm \<Rightarrow> (string \<times> ustring) list" where
  "get_answers s = (case data_answers s of None \<Rightarrow> [] | Some a \<Rightarrow> a)"

record tg_user =
  tg_id :: int
  tg_username :: "ustring option"
  tg_full_name :: ustring

record message =
  from_user :: "tg_user option"
  msg_text :: "ustring option"

text \<open>The texts the bot sends to the user, by name.\<close>

datatype reply =
    Rules
  | Stopped
  | NeedDetail nat
  | Question nat
  | LinkPrompt
  | NeedLink
  | BadFormat
  | ScoringNotice
  | Done bool


section \<open>Scoring\<close>

text \<open>
  A call that can raise: \<open>Raised msg\<close> is an exception \<open>e\<close> with \<open>str(e) = msg\<close>.
\<close>

datatype 'a outcome = Raised ustring | Returned 'a

text \<open>The values \<open>json.loads\<close> produces; an object keeps its members as an association list.\<close>

datatype json =
    JNull
  | JBool bool
  | JInt int
  | JFloat rat
  | JStr ustring
  | JArr "json list"
  | JObj "(ustring \<times> json) list"

record ScoreCriterion =
  name :: ustring
  score_0_10 :: int
  rationale :: ustring

record ScoreResult =
  criteria :: "ScoreCriterion list"
  overall_score_0_10 :: int
  hot :: bool
  summary_1_2_lines :: ustring

text \<open>
  The field readers of the validating library in its default (lax) mode: an \<open>int\<close> field
  takes an integer, a boolean, a float without fractional part or a numeric string (read by
  the library's own routine, the parameter \<open>str_as_int\<close>); a \<open>str\<close> field takes a string
  only; a \<open>bool\<close> field takes a boolean, the numbers 0 and 1 and a fixed list of words.
\<close>

definition as_int :: "(ustring \<Rightarrow> int option) \<Rightarrow> json \<Rightarrow> int option" where
  "as_int str_as_int j =
     (case j of
        JInt n \<Rightarrow> Some n
      | JBool b \<Rightarrow> Some (if b then 1 else 0)
      | JFloat r \<Rightarrow> (if of_int \<lfloor>r\<rfloor> = r then Some \<lfloor>r\<rfloor> else None)
      | JStr s \<Rightarrow> str_as_int s
      | _ \<Rightarrow> None)"

definition as_str :: "json \<Rightarrow> ustring option" where
  "as_str j = (case j of JStr s \<Rightarrow> Some s | _ \<Rightarrow> None)"

definition as_bool :: "json \<Rightarrow> bool option" where
  "as_bool j =
     (case j of
        JBool b \<Rightarrow> Some b
      | JInt n \<Rightarrow> (if n = 0 then Some False else if n = 1 then Some True else None)
      | JFloat r \<Rightarrow> (if r = 0 then Some False else if r = 1 then Some True else None)
      | JStr s \<Rightarrow>
          (if lower s \<in> set [u ''0'', u ''off'', u ''f'', u ''false'', u ''n'', u ''no''] then Some False
           else if lower s \<in> set [u ''1'', u ''on'', u ''t'', u ''true'', u ''y'', u ''yes''] then Some True
           else None)
      | _ \<Rightarrow> None)"

text \<open>\<open>score_0_10: int = Field(ge=0, le=10)\<close>\<close>

definition in_0_10 :: "int option \<Rightarrow> int option" where
  "in_0_10 x = (case x of Some n \<Rightarrow> (if 0 \<le> n \<and> n \<le> 10 then Some n else None) | None \<Rightarrow> None)"

definition validate_ScoreCriterion :: "(ustring \<Rightarrow> int option) \<Rightarrow> json \<Rightarrow> ScoreCriterion option" where
  "validate_ScoreCriterion str_as_int j =
     (case j of
        JObj kv \<Rightarrow>
          (case (Option.bind (map_of kv (u ''name'')) as_str,
                 in_0_10 (Option.bind (map_of kv (u ''score_0_10'')) (as_int str_as_int)),
                 Option.bind (map_of kv (u ''rationale'')) as_str) of
             (Some n, Some sc, Some r) \<Rightarrow> Some \<lparr>name = n, score_0_10 = sc, rationale = r\<rparr>
           | _ \<Rightarrow> None)
      | _ \<Rightarrow> None)"

text \<open>\<open>criteria: list[ScoreCriterion] = Field(min_length=3, max_length=3)\<close>\<close>

definition validate_criteria :: "(ustring \<Rightarrow> int option) \<Rightarrow> json \<Rightarrow> ScoreCriterion list option" where
  "validate_criteria str_as_int j =
     (case j of
        JArr xs \<Rightarrow>
          (if length xs < 3 \<or> length xs > 3 then None
           else if list_all (\<lambda>x. validate_ScoreCriterion str_as_int x \<noteq> None) xs
                then Some (map (\<lambda>x. the (validate_ScoreCriterion str_as_int x)) xs)
                else None)
      | _ \<Rightarrow> None)"

definition validate_ScoreResult :: "(ustring \<Rightarrow> int option) \<Rightarrow> json \<Rightarrow> ScoreResult option" where
  "validate_ScoreResult str_as_int j =
     (case j of
        JObj kv \<Rightarrow>
          (case (Option.bind (map_of kv (u ''criteria'')) (validate_criteria str_as_int),
                 in_0_10 (Option.bind (map_of kv (u ''overall_score_0_10'')) (as_int str_as_int)),
                 Option.bind (map_of kv (u ''hot'')) as_bool,
                 Option.bind (map_of kv (u ''summary_1_2_lines'')) as_str) of
             (Some cs, Some ov, Some h, Some sm) \<Rightarrow>
               Some \<lparr>criteria = cs, overall_score_0_10 = ov, hot = h, summary_1_2_lines = sm\<rparr>
           | _ \<Rightarrow> None)
      | _ \<Rightarrow> None)"

text \<open>\<open>scores.model_dump()\<close>\<close>

definition dump_criterion :: "ScoreCriterion \<Rightarrow> json" where
  "dump_criterion c =
     JObj [(u ''name'', JStr (name c)), (u ''score_0_10'', JInt (score_0_10 c)),
           (u ''rationale'', JStr (rationale c))]"

definition model_dump :: "ScoreResult \<Rightarrow> json" where
  "model_dump r =
     JObj [(u ''criteria'', JArr (map dump_criterion (criteria r))),
           (u ''overall_score_0_10'', JInt (overall_score_0_10 r)),
           (u ''hot'', JBool (hot r)),
           (u ''summary_1_2_lines'', JStr (summary_1_2_lines r))]"

record payload =
  p_tg_user_id :: "int option"
  p_username :: "ustring option"
  p_full_name :: "ustring option"
  p_answers :: "(string \<times> ustring) list"
  p_project_link :: ustring

definition opt_json :: "('a \<Rightarrow> json) \<Rightarrow> 'a option \<Rightarrow> json" where
  "opt_json f x = (case x of None \<Rightarrow> JNull | Some v \<Rightarrow> f v)"

definition payload_json :: "payload \<Rightarrow> json" where
  "payload_json p =
     JObj [(u ''tg_user_id'', opt_json JInt (p_tg_user_id p)),
           (u ''username'', opt_json JStr (p_username p)),
           (u ''full_name'', opt_json JStr (p_full_name p)),
           (u ''answers'', JObj (map (\<lambda>(k, v). (u k, JStr v)) (p_answers p))),
           (u ''project_link'', JStr (p_project_link p))]"

text \<open>The language of the rationale that the system instruction asks for.\<close>

datatype lang = Russian | English

definition is_cyrillic :: "nat \<Rightarrow> bool" where
  "is_cyrillic c \<longleftrightarrow> (1040 \<le> c \<and> c \<le> 1103) \<or> c = 1025 \<or> c = 1105"

definition lang_name :: "payload \<Rightarrow> lang" where
  "lang_name p = (if list_ex (\<lambda>(k, v). list_ex is_cyrillic v) (p_answers p) then Russian else English)"

text \<open>
  The services a scoring run talks to: the oracle (one request is the instruction language and
  the user prompt), the JSON codec and the text of the validation error.
\<close>

record scoring_services =
  call :: "lang \<Rightarrow> ustring \<Rightarrow> ustring outcome"
  json_loads :: "ustring \<Rightarrow> json outcome"
  json_dumps :: "json \<Rightarrow> ustring"
  str_as_int :: "ustring \<Rightarrow> int option"
  validation_error :: "json \<Rightarrow> ustring"

definition user_prompt :: "scoring_services \<Rightarrow> payload \<Rightarrow> ustring" where
  "user_prompt sv p =
     u ''Score this candidate based on their answers.'' @ [10]
     @ u ''Payload JSON:'' @ [10] @ json_dumps sv (payload_json p) @ [10]
     @ u ''Use exactly these 3 criteria names:'' @ [10]
     @ u ''1) Practical AI Application'' @ [10]
     @ u ''2) AI Reasoning & Control'' @ [10]
     @ u ''3) AI Product Thinking'' @ [10]
     @ u ''Overall score must be round(mean(criteria scores)).'' @ [10]
     @ u ''hot must be true if overall>=8 OR at least 2 criteria>=8.'' @ [10]
     @ u ''Return JSON ONLY.''"

definition retry_suffix :: ustring where
  "retry_suffix = [10, 10] @ u ''return valid JSON only, no prose''"

text \<open>\<open>json.loads(text)\<close> followed by \<open>ScoreResult.model_validate(data)\<close>.\<close>

definition parse_validate :: "scoring_services \<Rightarrow> ustring \<Rightarrow> ScoreResult outcome" where
  "parse_validate sv txt =
     (case json_loads sv txt of
        Raised e \<Rightarrow> Raised e
      | Returned data \<Rightarrow>
          (case validate_ScoreResult (str_as_int sv) data of
             None \<Rightarrow> Raised (validation_error sv data)
           | Some r \<Rightarrow> Returned r))"

text \<open>
  \<open>score_candidate\<close> returns the prompts it sent to the oracle, in order, next to its result.
  The first call is outside the \<open>try\<close>: an oracle that raises there is not retried.
\<close>

definition score_candidate :: "scoring_services \<Rightarrow> payload \<Rightarrow> ustring list \<times> ScoreResult outcome" where
  "score_candidate sv p =
     (let lg = lang_name p; user = user_prompt sv p in
      case call sv lg user of
        Raised e \<Rightarrow> ([user], Raised e)
      | Returned txt \<Rightarrow>
          (case parse_validate sv txt of
             Returned r \<Rightarrow> ([user], Returned r)
           | Raised _ \<Rightarrow>
               (let retry_prompt = user @ retry_suffix in
                case call sv lg retry_prompt of
                  Raised e \<Rightarrow> ([user, retry_prompt], Raised e)
                | Returned txt2 \<Rightarrow> ([user, retry_prompt], parse_validate sv txt2))))"


section \<open>Rows, alerts and the trace of a handler\<close>

text \<open>The dictionary handed to \<open>append_row\<close>, with the keys of the source.\<close>

record sheet_row =
  timestamp_utc_iso :: ustring
  tg_user_id :: int
  username :: "ustring option"
  full_name :: "ustring option"
  answers_json :: ustring
  project_link :: ustring
  project_note :: "ustring option"
  scores_json :: ustring
  overall_score :: int
  top_candidate :: bool
  llm_model :: ustring
  latency_ms :: int
  scoring_failed :: bool
  error :: "ustring option"

text \<open>
  The admin alert: its heading (top candidate or needs attention), the display name and the
  technical details at its end. The criteria lines and the materials line of the message are
  not part of the model.
\<close>

datatype detail = DetailScoringFailed | DetailSheetsError ustring | DetailError ustring

record alert =
  alert_chat_id :: int
  alert_is_top :: bool
  alert_display :: ustring
  alert_details :: "detail list"

text \<open>What a handler asks of the outside world, in the order of the calls.\<close>

datatype event =
    Answer reply
  | EditAccepted int nat
  | DeleteMessage int
  | Typing
  | OracleCall ustring
  | AppendRow sheet_row
  | AdminAlert alert
  | IntroRemoved
  | CallbackAnswer

text \<open>
  The settings and the outside world of one handler run: the scoring services, whether
  \<open>append_row\<close> raises on a row, the identifier the transport gives to the message that
  \<open>_send_replace\<close> sends, the identifier of the scoring notice if it could be sent, the clock
  reading and the measured latency.
\<close>

record env =
  admin_user_id :: int
  admin_alert_chat_id :: int
  cfg_llm_model :: ustring
  services :: scoring_services
  append_row :: "sheet_row \<Rightarrow> unit outcome"
  sent_message_id :: int
  scoring_msg_id :: "int option"
  now_iso :: ustring
  elapsed_ms :: int

definition is_admin :: "env \<Rightarrow> message \<Rightarrow> bool" where
  "is_admin env m = (case from_user m of None \<Rightarrow> False | Some usr \<Rightarrow> tg_id usr = admin_user_id env)"

text \<open>Truth value of an optional string: \<open>None\<close> and the empty string are false.\<close>

definition truthy :: "ustring option \<Rightarrow> bool" where
  "truthy x = (case x of None \<Rightarrow> False | Some t \<Rightarrow> t \<noteq> [])"

section \<open>Handlers\<close>

definition send_replace :: "env \<Rightarrow> fsm \<Rightarrow> reply \<Rightarrow> fsm \<times> event list" where
  "send_replace env s r =
     (let last_id = data_last_bot_msg_id s;
          del = (case last_id of None \<Rightarrow> [] | Some i \<Rightarrow> if i \<noteq> 0 then [DeleteMessage i] else [])
      in (s\<lparr>data_last_bot_msg_id := Some (sent_message_id env)\<rparr>, del @ [Answer r]))"

definition transition_accepted :: "fsm \<Rightarrow> nat \<Rightarrow> event list" where
  "transition_accepted s q_no =
     (case data_last_bot_msg_id s of
        None \<Rightarrow> []
      | Some i \<Rightarrow> if i \<noteq> 0 then [EditAccepted i q_no] else [])"

definition ask_q :: "env \<Rightarrow> fsm \<Rightarrow> nat \<Rightarrow> fsm \<times> event list" where
  "ask_q env s idx = send_replace env s (Question idx)"

definition start_handler :: "fsm \<Rightarrow> fsm \<times> event list" where
  "start_handler s = ((clear s)\<lparr>cur_state := Some rules\<rparr>, [Answer Rules])"

definition restart_handler :: "fsm \<Rightarrow> fsm \<times> event list" where
  "restart_handler s = ((clear s)\<lparr>cur_state := Some rules\<rparr>, [Answer Rules])"

definition cancel_handler :: "fsm \<Rightarrow> fsm \<times> event list" where
  "cancel_handler s = (clear s, [Answer Stopped])"

definition go_start_cb :: "env \<Rightarrow> fsm \<Rightarrow> fsm \<times> event list" where
  "go_start_cb env s =
     (if cur_state s \<noteq> Some rules then (s, [CallbackAnswer])
      else let s1 = s\<lparr>cur_state := Some q1, data_answers := Some [], data_last_bot_msg_id := None\<rparr>;
               (s2, ev) = ask_q env s1 0
           in (s2, [IntroRemoved] @ ev @ [CallbackAnswer]))"

text \<open>
  The body shared by \<open>q1_handler\<close> .. \<open>q5_handler\<close>, which differ in the question number, the key
  of the answer and the next state only.
\<close>

definition question_step :: "nat \<Rightarrow> string \<Rightarrow> ScreeningStates \<Rightarrow> env \<Rightarrow> message \<Rightarrow> fsm \<Rightarrow> fsm \<times> event list" where
  "question_step n key nxt env m s =
     (let txt = norm_str (msg_text m) in
      if txt = [] then (s, [Answer (NeedDetail n)])
      else let answers = AList.update key txt (get_answers s);
               s1 = s\<lparr>data_answers := Some answers\<rparr>;
               ev1 = transition_accepted s1 n;
               s2 = s1\<lparr>cur_state := Some nxt\<rparr>;
               (s3, ev2) = ask_q env s2 n
           in (s3, ev1 @ ev2))"

definition q1_handler :: "env \<Rightarrow> message \<Rightarrow> fsm \<Rightarrow> fsm \<times> event list" where
  "q1_handler = question_step 1 ''q1'' q2"

definition q2_handler :: "env \<Rightarrow> message \<Rightarrow> fsm \<Rightarrow> fsm \<times> event list" where
  "q2_handler = question_step 2 ''q2'' q3"

definition q3_handler :: "env \<Rightarrow> message \<Rightarrow> fsm \<Rightarrow> fsm \<times> event list" where
  "q3_handler = question_step 3 ''q3'' q4"

definition q4_handler :: "env \<Rightarrow> message \<Rightarrow> fsm \<Rightarrow> fsm \<times> event list" where
  "q4_handler = question_step 4 ''q4'' q5"

definition q5_handler :: "env \<Rightarrow> message \<Rightarrow> fsm \<Rightarrow> fsm \<times> event list" where
  "q5_handler = question_step 5 ''q5'' q6"

definition q6_handler :: "env \<Rightarrow> message \<Rightarrow> fsm \<Rightarrow> fsm \<times> event list" where
  "q6_handler env m s =
     (let txt = norm_str (msg_text m) in
      if txt = [] then (s, [Answer (NeedDetail 6)])
      else let answers = AList.update ''q6'' txt (get_answers s);
               s1 = s\<lparr>data_answers := Some answers\<rparr>;
               s2 = s1\<lparr>cur_state := Some link\<rparr>
           in send_replace env s2 LinkPrompt)"

text \<open>
  The classification at the head of \<open>link_handler\<close>: the pair \<open>(project_link, project_note)\<close>,
  or \<open>None\<close> where the handler answers with the list of accepted formats and returns.
\<close>

definition link_fields :: "ustring \<Rightarrow> (ustring \<times> ustring option) option" where
  "link_fields t =
     (let tl = lower t in
      if is_decline t then Some (u ''declined'', None)
      else if is_valid_http_url t then Some (t, None)
      else if tl = u ''nda'' then Some (u ''nda'', None)
      else if is_reasonable_nda_note t then Some (u ''nda'', Some t)
      else None)"

text \<open>The display name of the admin alert.\<close>

definition display_name :: "message \<Rightarrow> ustring" where
  "display_name m =
     (let full = (case from_user m of None \<Rightarrow> [] | Some usr \<Rightarrow> strip (tg_full_name usr));
          uname = (case from_user m of None \<Rightarrow> []
                   | Some usr \<Rightarrow> strip (case tg_username usr of None \<Rightarrow> [] | Some n \<Rightarrow> n));
          display = (if full \<noteq> [] then full else kandidat)
      in if uname \<noteq> [] then display @ u '' (@'' @ uname @ u '')'' else display)"

text \<open>The variables that the scoring \<open>try\<close> block of \<open>link_handler\<close> leaves behind.\<close>

record scored =
  sc_scoring_failed :: bool
  sc_error :: "ustring option"
  sc_scores_json :: ustring
  sc_overall_score :: int
  sc_top_candidate :: bool
  sc_events :: "event list"

definition run_scoring :: "env \<Rightarrow> payload \<Rightarrow> scored" where
  "run_scoring env pl =
     (let (calls, res) = score_candidate (services env) pl;
          before = [Typing, Answer ScoringNotice] @ map OracleCall calls
      in case res of
           Raised e \<Rightarrow>
             \<lparr>sc_scoring_failed = True, sc_error = Some (take 500 e), sc_scores_json = u ''{}'',
              sc_overall_score = 0, sc_top_candidate = False, sc_events = before\<rparr>
         | Returned scores \<Rightarrow>
             \<lparr>sc_scoring_failed = False, sc_error = None,
              sc_scores_json = json_dumps (services env) (model_dump scores),
              sc_overall_score = overall_score_0_10 scores, sc_top_candidate = hot scores,
              sc_events = before @ (case scoring_msg_id env of None \<Rightarrow> [] | Some i \<Rightarrow> [DeleteMessage i])\<rparr>)"

definition alert_for :: "env \<Rightarrow> message \<Rightarrow> scored \<Rightarrow> ustring option \<Rightarrow> alert" where
  "alert_for env m sc sheet_error =
     \<lparr>alert_chat_id = admin_alert_chat_id env,
      alert_is_top = sc_top_candidate sc,
      alert_display = display_name m,
      alert_details =
        (if truthy sheet_error \<or> truthy (sc_error sc) \<or> sc_scoring_failed sc then
           (if sc_scoring_failed sc then [DetailScoringFailed] else [])
           @ (case sheet_error of None \<Rightarrow> [] | Some e \<Rightarrow> if e \<noteq> [] then [DetailSheetsError (take 200 e)] else [])
           @ (case sc_error sc of None \<Rightarrow> [] | Some e \<Rightarrow> if e \<noteq> [] then [DetailError (take 200 e)] else [])
         else [])\<rparr>"

text \<open>The \<open>payload\<close> dictionary that \<open>link_handler\<close> hands to \<open>score_candidate\<close>.\<close>

definition build_payload :: "message \<Rightarrow> fsm \<Rightarrow> ustring \<Rightarrow> payload" where
  "build_payload m s plink =
     \<lparr>p_tg_user_id = map_option tg_id (from_user m),
      p_username = Option.bind (from_user m) tg_username,
      p_full_name = map_option tg_full_name (from_user m),
      p_answers = get_answers s,
      p_project_link = plink\<rparr>"

text \<open>The \<open>row\<close> dictionary that \<open>link_handler\<close> hands to \<open>append_row\<close>.\<close>

definition build_row :: "env \<Rightarrow> message \<Rightarrow> fsm \<Rightarrow> ustring \<Rightarrow> ustring option \<Rightarrow> scored \<Rightarrow> sheet_row" where
  "build_row env m s plink pnote sc =
     \<lparr>timestamp_utc_iso = now_iso env,
      tg_user_id = (case from_user m of None \<Rightarrow> 0 | Some x \<Rightarrow> tg_id x),
      username = Option.bind (from_user m) tg_username,
      full_name = map_option tg_full_name (from_user m),
      answers_json = json_dumps (services env) (JObj (map (\<lambda>(k, v). (u k, JStr v)) (get_answers s))),
      project_link = plink,
      project_note = pnote,
      scores_json = sc_scores_json sc,
      overall_score = sc_overall_score sc,
      top_candidate = sc_top_candidate sc,
      llm_model = cfg_llm_model env,
      latency_ms = elapsed_ms env,
      scoring_failed = sc_scoring_failed sc,
      error = sc_error sc\<rparr>"

text \<open>\<open>sheet_error\<close>: \<open>None\<close>, or the first 500 code points of the message of what \<open>append_row\<close> raised.\<close>

definition try_append :: "env \<Rightarrow> sheet_row \<Rightarrow> ustring option" where
  "try_append env row = (case append_row env row of Raised e \<Rightarrow> Some (take 500 e) | Returned _ \<Rightarrow> None)"

definition link_handler :: "env \<Rightarrow> message \<Rightarrow> fsm \<Rightarrow> fsm \<times> event list" where
  "link_handler env m s =
     (let txt = norm_str (msg_text m) in
      if txt = [] then (s, [Answer NeedLink])
      else case link_fields (strip txt) of
        None \<Rightarrow> (s, [Answer BadFormat])
      | Some (plink, pnote) \<Rightarrow>
          (let sc = run_scoring env (build_payload m s plink);
               row = build_row env m s plink pnote sc;
               sheet_error = try_append env row;
               notify = (if sc_scoring_failed sc \<or> truthy sheet_error \<or> sc_top_candidate sc
                         then [AdminAlert (alert_for env m sc sheet_error)] else []);
               (s1, done) = send_replace env s (Done (is_admin env m))
           in (s1\<lparr>cur_state := None\<rparr>, sc_events sc @ [AppendRow row] @ notify @ done)))"

section \<open>Admin statistics\<close>

text \<open>
  \<open>int(s)\<close> on a string: surrounding whitespace, an optional sign, then ASCII digits, where
  single underscores may stand between digits. Decimal digits of other scripts are not
  modelled.
\<close>

definition is_digit :: "nat \<Rightarrow> bool" where
  "is_digit c \<longleftrightarrow> 48 \<le> c \<and> c \<le> 57"

fun digits_ok :: "ustring \<Rightarrow> bool" where
  "digits_ok [] = False"
| "digits_ok [c] = is_digit c"
| "digits_ok (c # d # r) = (is_digit c \<and> (if d = 95 then digits_ok r else digits_ok (d # r)))"

definition digits_val :: "ustring \<Rightarrow> nat" where
  "digits_val ds = foldl (\<lambda>a c. 10 * a + (c - 48)) 0 (filter is_digit ds)"

definition py_int :: "ustring \<Rightarrow> int option" where
  "py_int s0 =
     (let s = strip s0 in
      case s of
        [] \<Rightarrow> None
      | c # r \<Rightarrow>
          (let neg = (c = 45); body = (if c = 45 \<or> c = 43 then r else s) in
           if digits_ok body then Some (if neg then - int (digits_val body) else int (digits_val body))
           else None))"

definition to_int :: "ustring \<Rightarrow> int \<Rightarrow> int" where
  "to_int x dflt = (case py_int (strip x) of None \<Rightarrow> dflt | Some n \<Rightarrow> n)"

definition to_bool :: "ustring \<Rightarrow> bool" where
  "to_bool x = (let s = lower (strip x) in s \<in> set [u ''true'', u ''1'', u ''yes'', u ''y'', da])"

text \<open>A fetched row: the cells of one sheet line under the header names.\<close>

type_synonym raw_row = "string \<rightharpoonup> ustring"

text \<open>\<open>r.get(k, d)\<close> and \<open>(r.get(k) or "")\<close>\<close>

definition get_or :: "raw_row \<Rightarrow> string \<Rightarrow> ustring \<Rightarrow> ustring" where
  "get_or r k d = (case r k of None \<Rightarrow> d | Some v \<Rightarrow> v)"

record norm_row =
  n_top_candidate :: bool
  n_overall :: int
  n_scoring_failed :: bool
  n_display :: ustring
  n_ts :: ustring

definition norm_entry :: "raw_row \<Rightarrow> norm_row" where
  "norm_entry r =
     (let uname = strip (get_or r ''username'' []);
          fname = strip (get_or r ''full_name'' [])
      in \<lparr>n_top_candidate = to_bool (get_or r ''top_candidate'' []),
          n_overall = to_int (get_or r ''overall_score'' (u ''0'')) 0,
          n_scoring_failed = to_bool (get_or r ''scoring_failed'' (u ''false'')),
          n_display = (if uname \<noteq> [] then u ''@'' @ uname
                       else if fname \<noteq> [] then fname else u ''unknown''),
          n_ts = strip (get_or r ''timestamp_utc_iso'' [])\<rparr>)"

text \<open>The loop that builds \<open>norm\<close>: a row without the flag is skipped when \<open>only_top\<close> is set.\<close>

fun collect :: "bool \<Rightarrow> raw_row list \<Rightarrow> norm_row list" where
  "collect only_top [] = []"
| "collect only_top (r # rs) =
     (if only_top \<and> \<not> to_bool (get_or r ''top_candidate'' []) then collect only_top rs
      else norm_entry r # collect only_top rs)"

text \<open>
  \<open>sorted(xs, key=k, reverse=True)\<close>: descending by key, rows with equal keys in their
  original order.
\<close>

definition sorted_reverse :: "('a \<Rightarrow> 'k::linorder) \<Rightarrow> 'a list \<Rightarrow> 'a list" where
  "sorted_reverse k xs = rev (sort_key k (rev xs))"

definition rank_key :: "norm_row \<Rightarrow> int \<times> ustring" where
  "rank_key x = (n_overall x, n_ts x)"

text \<open>
  The view that \<open>_render_admin_stats\<close> renders: one of the two fixed texts, or the title
  (general or top), the four figures and the rows of the top 3. The average is
  \<open>round(sum / max(total, 1), 1)\<close> on floats; the float division and rounding are the
  parameter \<open>round1\<close>.
\<close>

datatype 'f admin_stats =
    NoRuns
  | NoTopCandidates
  | Stats bool nat 'f nat nat "norm_row list"

definition render_admin_stats :: "(int \<Rightarrow> nat \<Rightarrow> 'f) \<Rightarrow> bool \<Rightarrow> raw_row list \<Rightarrow> 'f admin_stats" where
  "render_admin_stats round1 only_top rows =
     (if rows = [] then NoRuns
      else let nrm = collect only_top rows in
        if nrm = [] then NoTopCandidates
        else let total = length nrm;
                 top_count = length (filter n_top_candidate nrm);
                 failed_count = length (filter n_scoring_failed nrm);
                 avg = round1 (sum_list (map n_overall nrm)) (max total 1);
                 top3 = take 3 (sorted_reverse rank_key nrm)
             in Stats only_top total avg top_count failed_count top3)"

text \<open>
  The summary in the words of the specification: with the filter set, the rows with the
  top-candidate flag are selected first and every figure is taken over the selection.
\<close>

definition top_rows :: "raw_row list \<Rightarrow> norm_row list" where
  "top_rows rows = filter n_top_candidate (map norm_entry rows)"

definition summarize_top :: "(int \<Rightarrow> nat \<Rightarrow> 'f) \<Rightarrow> raw_row list \<Rightarrow> 'f admin_stats" where
  "summarize_top round1 rows =
     (if rows = [] then NoRuns
      else if top_rows rows = [] then NoTopCandidates
      else Stats True
             (length (top_rows rows))
             (round1 (sum_list (map n_overall (top_rows rows))) (length (top_rows rows)))
             (length (top_rows rows))
             (length (filter n_scoring_failed (top_rows rows)))
             (take 3 (sorted_reverse rank_key (top_rows rows))))"


section \<open>Reading a trace\<close>

definition appended :: "event list \<Rightarrow> sheet_row list" where
  "appended evs = List.map_filter (\<lambda>e. case e of AppendRow r \<Rightarrow> Some r | _ \<Rightarrow> None) evs"

definition alerts :: "event list \<Rightarrow> alert list" where
  "alerts evs = List.map_filter (\<lambda>e. case e of AdminAlert a \<Rightarrow> Some a | _ \<Rightarrow> None) evs"

definition answered :: "event list \<Rightarrow> reply list" where
  "answered evs = List.map_filter (\<lambda>e. case e of Answer r \<Rightarrow> Some r | _ \<Rightarrow> None) evs"

section \<open>Sample sessions\<close>

definition sample_criterion :: "int \<Rightarrow> json" where
  "sample_criterion n =
     JObj [(u ''name'', JStr (u ''Practical AI Application'')), (u ''score_0_10'', JInt n),
           (u ''rationale'', JStr (u ''Clear example.''))]"

definition sample_scores :: "json list \<Rightarrow> int \<Rightarrow> bool \<Rightarrow> json" where
  "sample_scores cs ov h =
     JObj [(u ''criteria'', JArr cs), (u ''overall_score_0_10'', JInt ov), (u ''hot'', JBool h),
           (u ''summary_1_2_lines'', JStr (u ''Solid.''))]"

text \<open>
  An oracle that answers the first prompt (it ends with a full stop) with \<open>first\<close> and the
  stricter retry prompt with \<open>second\<close>, and a parser that knows three documents: \<open>two\<close> (two criteria only),
  \<open>eleven\<close> (a score of 11), \<open>calm\<close> (valid, not hot) and \<open>hot\<close> (valid, hot).
\<close>

definition sample_services :: "ustring outcome \<Rightarrow> ustring outcome \<Rightarrow> scoring_services" where
  "sample_services first second =
     \<lparr>call = (\<lambda>lg p. if last p = 46 then first else second),
      json_loads = (\<lambda>t.
        if t = u ''two'' then Returned (sample_scores [sample_criterion 9, sample_criterion 8] 8 True)
        else if t = u ''eleven'' then
          Returned (sample_scores [sample_criterion 9, sample_criterion 11, sample_criterion 7] 9 True)
        else if t = u ''calm'' then
          Returned (sample_scores [sample_criterion 5, sample_criterion 6, sample_criterion 4] 5 False)
        else if t = u ''hot'' then
          Returned (sample_scores [sample_criterion 9, sample_criterion 8, sample_criterion 7] 8 True)
        else Raised (u ''Expecting value'')),
      json_dumps = (\<lambda>j. u ''<json>''),
      str_as_int = (\<lambda>t. None),
      validation_error = (\<lambda>j. u ''validation error'')\<rparr>"

definition sample_env :: "scoring_services \<Rightarrow> unit outcome \<Rightarrow> env" where
  "sample_env sv stored =
     \<lparr>admin_user_id = 1, admin_alert_chat_id = 2, cfg_llm_model = u ''model'',
      services = sv, append_row = (\<lambda>r. stored), sent_message_id = 20,
      scoring_msg_id = Some 19, now_iso = u ''2025-01-01T00:00:00Z'', elapsed_ms = 1500\<rparr>"

definition sample_user :: tg_user where
  "sample_user = \<lparr>tg_id = 42, tg_username = Some (u ''ann''), tg_full_name = u ''Ann Lee''\<rparr>"

definition sample_message :: "ustring \<Rightarrow> message" where
  "sample_message t = \<lparr>from_user = Some sample_user, msg_text = Some t\<rparr>"

definition sample_fsm :: "ScreeningStates \<Rightarrow> fsm" where
  "sample_fsm st =
     \<lparr>cur_state = Some st, data_answers = Some [(''q1'', u ''built a bot'')],
      data_last_bot_msg_id = Some 7\<rparr>"


definition sample_row :: "ustring \<Rightarrow> ustring \<Rightarrow> ustring \<Rightarrow> ustring \<Rightarrow> raw_row" where
  "sample_row uname score flag ts =
     [''username'' \<mapsto> uname, ''overall_score'' \<mapsto> score, ''top_candidate'' \<mapsto> flag,
      ''scoring_failed'' \<mapsto> u ''FALSE'', ''timestamp_utc_iso'' \<mapsto> ts]"

text \<open>Three runs with the scores 10, 8 and 6, the first two flagged as top candidates.\<close>

definition sample_rows :: "raw_row list" where
  "sample_rows =
     [sample_row (u ''eve'') (u ''8'') (u ''TRUE'') (u ''2025-01-02T10:00:00Z''),
      sample_row (u ''bob'') (u ''6'') (u ''FALSE'') (u ''2025-01-03T10:00:00Z''),
      sample_row (u ''ann'') (u ''10'') (u ''TRUE'') (u ''2025-01-01T10:00:00Z'')]"

section \<open>Facts about text\<close>

lemma dropWhile_rev_dropWhile:
  "dropWhile P (rev (dropWhile P (rev (dropWhile P s)))) = rev (dropWhile P (rev (dropWhile P s)))"
proof (cases "dropWhile P (rev (dropWhile P s)) = []")
  case True then show ?thesis unfolding True by simp
next
  case False
  define a where "a = dropWhile P s"
  define b where "b = dropWhile P (rev a)"
  from False have bne: "b \<noteq> []" by (simp add: a_def b_def)
  then have ane: "a \<noteq> []" by (auto simp: b_def)
  have "\<not> P (hd a)" using ane unfolding a_def by (simp add: hd_dropWhile)
  moreover have "last b = hd a"
  proof -
    obtain ys where "rev a = ys @ b" unfolding b_def by (metis takeWhile_dropWhile_id)
    then have "last (rev a) = last b" using bne by simp
    then show ?thesis using ane by (simp add: last_rev)
  qed
  ultimately have "\<not> P (hd (rev b))" using bne by (simp add: hd_rev)
  then have "dropWhile P (rev b) = rev b" using bne by (cases "rev b") auto
  then show ?thesis by (simp add: a_def b_def)
qed

lemma strip_strip: "strip (strip s) = strip s"
proof -
  have 1: "dropWhile py_isspace (strip s) = strip s"
    unfolding strip_def by (rule dropWhile_rev_dropWhile)
  have 2: "dropWhile py_isspace (dropWhile py_isspace xs) = dropWhile py_isspace xs" for xs
    by (metis dropWhile_idem)
  show ?thesis
    unfolding strip_def[of "strip s"] 1
    by (simp add: strip_def 2)
qed

lemma dropWhile_all_Nil: "(\<forall>x\<in>set (dropWhile P s). P x) \<longleftrightarrow> dropWhile P s = []"
proof
  assume a: "\<forall>x\<in>set (dropWhile P s). P x"
  show "dropWhile P s = []"
  proof (rule ccontr)
    assume n: "dropWhile P s \<noteq> []"
    then have "\<not> P (hd (dropWhile P s))" by (simp add: hd_dropWhile)
    moreover have "hd (dropWhile P s) \<in> set (dropWhile P s)" using n by simp
    ultimately show False using a by blast
  qed
next
  assume "dropWhile P s = []"
  then show "\<forall>x\<in>set (dropWhile P s). P x" by (simp only: list.set ball_empty)
qed

lemma strip_Nil_iff: "strip s = [] \<longleftrightarrow> list_all py_isspace s"
proof -
  have "strip s = [] \<longleftrightarrow> (\<forall>x\<in>set (dropWhile py_isspace s). py_isspace x)"
    by (simp add: strip_def)
  also have "\<dots> \<longleftrightarrow> dropWhile py_isspace s = []" by (rule dropWhile_all_Nil)
  also have "\<dots> \<longleftrightarrow> list_all py_isspace s" by (simp add: list_all_iff)
  finally show ?thesis .
qed

lemma set_strip_subset: "set (strip s) \<subseteq> set s"
  unfolding strip_def by (metis set_rev set_dropWhileD subsetI)

lemma lower_cp_dot: "lower_cp c = 46 \<longleftrightarrow> c = 46"
  by (auto simp: lower_cp_def)
lemma lower_cp_space: "lower_cp c = 32 \<longleftrightarrow> c = 32"
  by (auto simp: lower_cp_def)
lemma split_cp_no_sep: "c \<notin> set s \<Longrightarrow> split_cp c s = [s]"
  by (induction s) auto
lemma replace_cp_absent: "c \<notin> set s \<Longrightarrow> replace_cp c r s = s"
  by (induction s) (auto simp: replace_cp_def)
lemma startswith_set: "startswith s p \<Longrightarrow> set p \<subseteq> set s"
  unfolding startswith_def by (metis set_take_subset)
lemma contains_set: "contains s p \<Longrightarrow> set p \<subseteq> set s"
proof (induction s)
  case Nil then show ?case by simp
next
  case (Cons a s)
  then show ?case using startswith_set[of "a # s" p] by auto
qed
lemma endswith_set: "endswith s p \<Longrightarrow> set p \<subseteq> set s"
  unfolding endswith_def by (metis set_drop_subset)

section \<open>Facts about traces and the link step\<close>

lemma link_handler_accepted:
  assumes "norm_str (msg_text m) \<noteq> []"
      and "link_fields (strip (norm_str (msg_text m))) = Some (plink, pnote)"
  shows "link_handler env m s =
     (let sc = run_scoring env (build_payload m s plink);
          row = build_row env m s plink pnote sc;
          sheet_error = try_append env row
      in ((fst (send_replace env s (Done (is_admin env m))))\<lparr>cur_state := None\<rparr>,
          sc_events sc @ [AppendRow row]
          @ (if sc_scoring_failed sc \<or> truthy sheet_error \<or> sc_top_candidate sc
             then [AdminAlert (alert_for env m sc sheet_error)] else [])
          @ snd (send_replace env s (Done (is_admin env m)))))"
  using assms
  by (simp add: link_handler_def Let_def split_def)

lemma appended_simps:
  "appended [] = []"
  "appended (AppendRow r # evs) = r # appended evs"
  "appended (Answer a # evs) = appended evs"
  "appended (EditAccepted i n # evs) = appended evs"
  "appended (DeleteMessage i # evs) = appended evs"
  "appended (Typing # evs) = appended evs"
  "appended (OracleCall p # evs) = appended evs"
  "appended (AdminAlert al # evs) = appended evs"
  "appended (IntroRemoved # evs) = appended evs"
  "appended (CallbackAnswer # evs) = appended evs"
  by (simp_all add: appended_def)

lemma appended_append: "appended (xs @ ys) = appended xs @ appended ys"
  by (simp add: appended_def List.map_filter_def)

lemma alerts_simps:
  "alerts [] = []"
  "alerts (AdminAlert al # evs) = al # alerts evs"
  "alerts (Answer a # evs) = alerts evs"
  "alerts (EditAccepted i n # evs) = alerts evs"
  "alerts (DeleteMessage i # evs) = alerts evs"
  "alerts (Typing # evs) = alerts evs"
  "alerts (OracleCall p # evs) = alerts evs"
  "alerts (AppendRow r # evs) = alerts evs"
  "alerts (IntroRemoved # evs) = alerts evs"
  "alerts (CallbackAnswer # evs) = alerts evs"
  by (simp_all add: alerts_def)

lemma alerts_append: "alerts (xs @ ys) = alerts xs @ alerts ys"
  by (simp add: alerts_def List.map_filter_def)

lemma appended_map_OracleCall: "appended (map OracleCall cs) = []"
  by (induction cs) (simp_all add: appended_simps)
lemma alerts_map_OracleCall: "alerts (map OracleCall cs) = []"
  by (induction cs) (simp_all add: alerts_simps)

lemma appended_send_replace: "appended (snd (send_replace env s r)) = []"
  by (simp add: send_replace_def Let_def appended_simps appended_append split: option.splits)
lemma alerts_send_replace: "alerts (snd (send_replace env s r)) = []"
  by (simp add: send_replace_def Let_def alerts_simps alerts_append split: option.splits)
lemma last_send_replace: "last (snd (send_replace env s r)) = Answer r"
  by (simp add: send_replace_def Let_def)
lemma send_replace_nonempty: "snd (send_replace env s r) \<noteq> []"
  by (simp add: send_replace_def Let_def)

lemma appended_run_scoring: "appended (sc_events (run_scoring env p)) = []"
  by (simp add: run_scoring_def Let_def split_def appended_simps appended_append appended_map_OracleCall
      split: outcome.splits option.splits)
lemma alerts_run_scoring: "alerts (sc_events (run_scoring env p)) = []"
  by (simp add: run_scoring_def Let_def split_def alerts_simps alerts_append alerts_map_OracleCall
      split: outcome.splits option.splits)

lemma run_scoring_failed:
  assumes "snd (score_candidate (services env) p) = Raised e"
  shows "sc_scoring_failed (run_scoring env p)" "sc_error (run_scoring env p) = Some (take 500 e)"
    "sc_scores_json (run_scoring env p) = u ''{}''" "sc_overall_score (run_scoring env p) = 0"
    "sc_top_candidate (run_scoring env p) = False"
  using assms by (simp_all add: run_scoring_def split_def Let_def)

section \<open>Evaluation on samples\<close>

lemmas text_defs = u_def py_isspace_def strip_def lower_def lower_cp_def startswith_def endswith_def
  replace_cp_def norm_str_def is_decline_def is_valid_http_url_def is_reasonable_nda_note_def
  link_fields_def ne_hochu_def ne_hochu_sp_def net_def da_def kandidat_def Let_def

lemmas sample_defs = sample_env_def sample_services_def sample_message_def sample_user_def
  sample_fsm_def sample_scores_def sample_criterion_def

lemma last_user_prompt: "last (user_prompt sv p) = 46"
  by (simp add: user_prompt_def u_def)

lemma last_retry_prompt: "last (user_prompt sv p @ retry_suffix) = 101"
  by (simp add: retry_suffix_def u_def)

section \<open>Scoring failure at the link step\<close>

text \<open>
  C1. When the link step accepts the input and \<open>score_candidate\<close> raises (the oracle call
  raised, or the first output and the output of the retry both failed to parse or validate),
  the one row handed to \<open>append_row\<close> has \<open>scoring_failed = True\<close>, \<open>overall_score = 0\<close>,
  \<open>scores_json = "{}"\<close> and as \<open>error\<close> the first 500 code points of the exception text; the
  last thing the handler does is send the completion message, and the state it leaves is the
  idle one.
\<close>

theorem scoring_failure_is_recorded:
  assumes "norm_str (msg_text m) \<noteq> []"
      and "link_fields (strip (norm_str (msg_text m))) = Some (plink, pnote)"
      and "snd (score_candidate (services env) (build_payload m s plink)) = Raised e"
  shows "\<exists>row. appended (snd (link_handler env m s)) = [row]
           \<and> scoring_failed row = True \<and> overall_score row = 0 \<and> scores_json row = u ''{}''
           \<and> error row = Some (take 500 e) \<and> length (take 500 e) \<le> 500
           \<and> last (snd (link_handler env m s)) = Answer (Done (is_admin env m))
           \<and> cur_state (fst (link_handler env m s)) = None"
proof -
  let ?sc = "run_scoring env (build_payload m s plink)"
  let ?row = "build_row env m s plink pnote ?sc"
  note f = run_scoring_failed[OF assms(3)]
  have a: "appended (snd (link_handler env m s)) = [?row]"
    by (simp add: link_handler_accepted[OF assms(1,2)] Let_def appended_append appended_simps
        appended_run_scoring appended_send_replace)
  have l: "last (snd (link_handler env m s)) = Answer (Done (is_admin env m))"
    by (simp add: link_handler_accepted[OF assms(1,2)] Let_def last_send_replace send_replace_nonempty)
  have c: "cur_state (fst (link_handler env m s)) = None"
    by (simp add: link_handler_accepted[OF assms(1,2)] Let_def)
  show ?thesis using a l c f by (simp add: build_row_def)
qed

theorem scoring_failure_is_recorded_witness:
  "norm_str (msg_text (sample_message (u ''https://x.com''))) \<noteq> []
   \<and> link_fields (strip (norm_str (msg_text (sample_message (u ''https://x.com'')))))
       = Some (u ''https://x.com'', None)
   \<and> snd (score_candidate
             (services (sample_env (sample_services (Raised (u ''timeout'')) (Raised [])) (Returned ())))
             (build_payload (sample_message (u ''https://x.com'')) (sample_fsm link) (u ''https://x.com'')))
       = Raised (u ''timeout'')
   \<and> (\<exists>row. appended (snd (link_handler
                 (sample_env (sample_services (Raised (u ''timeout'')) (Raised [])) (Returned ()))
                 (sample_message (u ''https://x.com'')) (sample_fsm link))) = [row]
          \<and> scoring_failed row = True \<and> overall_score row = 0 \<and> scores_json row = u ''{}''
          \<and> error row = Some (take 500 (u ''timeout'')) \<and> length (take 500 (u ''timeout'')) \<le> 500
          \<and> last (snd (link_handler
                 (sample_env (sample_services (Raised (u ''timeout'')) (Raised [])) (Returned ()))
                 (sample_message (u ''https://x.com'')) (sample_fsm link)))
              = Answer (Done (is_admin
                 (sample_env (sample_services (Raised (u ''timeout'')) (Raised [])) (Returned ()))
                 (sample_message (u ''https://x.com''))))
          \<and> cur_state (fst (link_handler
                 (sample_env (sample_services (Raised (u ''timeout'')) (Raised [])) (Returned ()))
                 (sample_message (u ''https://x.com'')) (sample_fsm link))) = None)"
proof -
  have h1: "norm_str (msg_text (sample_message (u ''https://x.com''))) \<noteq> []"
    by (simp add: sample_message_def text_defs)
  have h2: "link_fields (strip (norm_str (msg_text (sample_message (u ''https://x.com'')))))
       = Some (u ''https://x.com'', None)"
    by (simp add: sample_message_def text_defs)
  have h3: "snd (score_candidate
             (services (sample_env (sample_services (Raised (u ''timeout'')) (Raised [])) (Returned ())))
             (build_payload (sample_message (u ''https://x.com'')) (sample_fsm link) (u ''https://x.com'')))
       = Raised (u ''timeout'')"
    by (simp add: score_candidate_def sample_env_def sample_services_def Let_def last_user_prompt)
  from scoring_failure_is_recorded[OF h1 h2 h3] h1 h2 h3 show ?thesis by blast
qed

section \<open>Blank answers\<close>

lemma norm_str_blank_iff:
  "norm_str t = [] \<longleftrightarrow> (case t of None \<Rightarrow> True | Some x \<Rightarrow> list_all py_isspace x)"
  by (cases t) (simp_all add: norm_str_def strip_Nil_iff)

text \<open>
  C7. At each of the six question steps, a message whose text is missing, empty or made of
  whitespace only (its trimmed text is empty) leaves the whole session as it was, the step and
  the answers included, and the only thing the handler does is send the reprompt of that
  question.
\<close>

theorem blank_answer_keeps_step:
  assumes "norm_str (msg_text m) = []"
  shows "q1_handler env m s = (s, [Answer (NeedDetail 1)])
       \<and> q2_handler env m s = (s, [Answer (NeedDetail 2)])
       \<and> q3_handler env m s = (s, [Answer (NeedDetail 3)])
       \<and> q4_handler env m s = (s, [Answer (NeedDetail 4)])
       \<and> q5_handler env m s = (s, [Answer (NeedDetail 5)])
       \<and> q6_handler env m s = (s, [Answer (NeedDetail 6)])"
  using assms
  by (simp add: q1_handler_def q2_handler_def q3_handler_def q4_handler_def q5_handler_def
      q6_handler_def question_step_def)

theorem blank_answer_keeps_step_witness:
  "norm_str (msg_text (sample_message [32, 10, 9])) = []
   \<and> q1_handler (sample_env (sample_services (Raised []) (Raised [])) (Returned ()))
        (sample_message [32, 10, 9]) (sample_fsm q1)
      = (sample_fsm q1, [Answer (NeedDetail 1)])
   \<and> q6_handler (sample_env (sample_services (Raised []) (Raised [])) (Returned ()))
        (sample_message [32, 10, 9]) (sample_fsm q6)
      = (sample_fsm q6, [Answer (NeedDetail 6)])"
proof -
  have h: "norm_str (msg_text (sample_message [32, 10, 9])) = []"
    by (simp add: sample_message_def text_defs)
  from blank_answer_keeps_step[OF h] h show ?thesis by blast
qed

section \<open>Cancel and restart\<close>

text \<open>
  C4, as stated, fails for a restart: from the third question, \<open>/restart\<close> leaves the session
  at the rules step, which is not the idle state.
\<close>

theorem restart_leaves_rules_step:
  "cur_state (sample_fsm q3) \<noteq> None
   \<and> cur_state (fst (restart_handler (sample_fsm q3))) = Some rules
   \<and> cur_state (fst (restart_handler (sample_fsm q3))) \<noteq> None"
  by (simp add: restart_handler_def clear_def sample_fsm_def)

text \<open>
  C4, amended. From every state, \<open>/cancel\<close> leaves the idle state with an empty data
  dictionary, so the answers read back empty, and appends no row; \<open>/restart\<close> discards the
  answers in the same way and appends no row, and leaves the session at the rules step, where
  the confirmation button is awaited.
\<close>

theorem cancel_and_restart_discard_answers:
  "cancel_handler s = (\<lparr>cur_state = None, data_answers = None, data_last_bot_msg_id = None\<rparr>, [Answer Stopped])
   \<and> get_answers (fst (cancel_handler s)) = []
   \<and> appended (snd (cancel_handler s)) = []
   \<and> restart_handler s = (\<lparr>cur_state = Some rules, data_answers = None, data_last_bot_msg_id = None\<rparr>, [Answer Rules])
   \<and> get_answers (fst (restart_handler s)) = []
   \<and> appended (snd (restart_handler s)) = []"
  by (simp add: cancel_handler_def restart_handler_def clear_def get_answers_def appended_simps)

section \<open>The display name of the admin alert\<close>

text \<open>
  C9, as stated, fails: for a candidate with both a full name and a handle the alert shows the
  full name first and the handle after it in brackets, not the handle alone.
\<close>

theorem alert_shows_name_before_handle:
  "display_name (sample_message []) = u ''Ann Lee (@ann)''
   \<and> display_name (sample_message []) \<noteq> u ''@ann''
   \<and> display_name (sample_message []) \<noteq> u ''ann''"
  by (simp add: display_name_def sample_message_def sample_user_def text_defs)

text \<open>
  C9, amended. The display name of the alert is the trimmed full name, or the placeholder when
  there is none, and a handle, when there is one, follows it as \<open>(@handle)\<close>.
\<close>

theorem alert_display_name:
  assumes "from_user m = Some usr"
      and "full = strip (tg_full_name usr)"
      and "handle = strip (case tg_username usr of None \<Rightarrow> [] | Some n \<Rightarrow> n)"
  shows "(handle = [] \<and> full \<noteq> [] \<longrightarrow> display_name m = full)
       \<and> (handle = [] \<and> full = [] \<longrightarrow> display_name m = kandidat)
       \<and> (handle \<noteq> [] \<and> full \<noteq> [] \<longrightarrow> display_name m = full @ u '' (@'' @ handle @ u '')'')
       \<and> (handle \<noteq> [] \<and> full = [] \<longrightarrow> display_name m = kandidat @ u '' (@'' @ handle @ u '')'')"
  using assms by (simp add: display_name_def Let_def)

theorem alert_display_name_witness:
  "from_user (sample_message []) = Some sample_user
   \<and> u ''Ann Lee'' = strip (tg_full_name sample_user)
   \<and> u ''ann'' = strip (case tg_username sample_user of None \<Rightarrow> [] | Some n \<Rightarrow> n)
   \<and> display_name (sample_message []) = u ''Ann Lee'' @ u '' (@'' @ u ''ann'' @ u '')''"
proof -
  have h1: "from_user (sample_message []) = Some sample_user"
    by (simp add: sample_message_def)
  have h2: "u ''Ann Lee'' = strip (tg_full_name sample_user)"
    by (simp add: sample_user_def text_defs)
  have h3: "u ''ann'' = strip (case tg_username sample_user of None \<Rightarrow> [] | Some n \<Rightarrow> n)"
    by (simp add: sample_user_def text_defs)
  have n1: "u ''ann'' \<noteq> []" and n2: "u ''Ann Lee'' \<noteq> []" by (simp_all add: u_def)
  from alert_display_name[OF h1 h2 h3] n1 n2 h1 h2 h3 show ?thesis by blast
qed

section \<open>The project note\<close>

lemmas validate_defs = validate_ScoreResult_def validate_criteria_def validate_ScoreCriterion_def
  as_int_def as_str_def as_bool_def in_0_10_def parse_validate_def

lemma strip_norm_str: "strip (norm_str t) = norm_str t"
  by (simp add: norm_str_def strip_strip)

lemma appended_link_handler:
  "appended (snd (link_handler env m s)) =
     (if norm_str (msg_text m) = [] then []
      else case link_fields (norm_str (msg_text m)) of
        None \<Rightarrow> []
      | Some (plink, pnote) \<Rightarrow>
          [build_row env m s plink pnote (run_scoring env (build_payload m s plink))])"
  by (simp add: link_handler_def strip_norm_str Let_def split_def appended_simps appended_append
      appended_run_scoring appended_send_replace split: option.splits)

lemma link_fields_note:
  assumes "link_fields t = Some (plink, Some n)"
  shows "plink = u ''nda'' \<and> n = t \<and> is_reasonable_nda_note t \<and> \<not> is_decline t
         \<and> \<not> is_valid_http_url t \<and> lower t \<noteq> u ''nda''"
  using assms by (auto simp: link_fields_def Let_def split: if_splits)

lemma link_fields_no_note:
  assumes "is_decline t \<or> is_valid_http_url t \<or> lower t = u ''nda''"
  shows "\<exists>plink. link_fields t = Some (plink, None)"
  using assms by (auto simp: link_fields_def Let_def)

text \<open>
  C10. In every row that \<open>link_handler\<close> hands to \<open>append_row\<close>, a project note is present
  only when the project link is the tag \<open>nda\<close> and the trimmed input was accepted as a free-text
  note (and was neither a decline, nor a URL, nor the bare marker); the note is then that
  input. A decline, a URL and the bare marker \<open>nda\<close> all give a row without a note.
\<close>

theorem note_only_for_nda_text:
  assumes "row \<in> set (appended (snd (link_handler env m s)))"
  shows "(project_note row \<noteq> None \<longrightarrow>
            project_link row = u ''nda'' \<and> project_note row = Some (norm_str (msg_text m))
            \<and> is_reasonable_nda_note (norm_str (msg_text m))
            \<and> \<not> is_decline (norm_str (msg_text m))
            \<and> \<not> is_valid_http_url (norm_str (msg_text m))
            \<and> lower (norm_str (msg_text m)) \<noteq> u ''nda'')
       \<and> (is_decline (norm_str (msg_text m)) \<longrightarrow> project_note row = None)
       \<and> (is_valid_http_url (norm_str (msg_text m)) \<longrightarrow> project_note row = None)
       \<and> (lower (norm_str (msg_text m)) = u ''nda'' \<longrightarrow> project_note row = None)"
proof -
  let ?t = "norm_str (msg_text m)"
  obtain plink pnote where
    lf: "link_fields ?t = Some (plink, pnote)" and
    row: "row = build_row env m s plink pnote (run_scoring env (build_payload m s plink))"
  proof (cases "link_fields ?t")
    case None
    with assms show ?thesis by (simp add: appended_link_handler split: if_splits)
  next
    case (Some pr)
    obtain a b where pr: "pr = (a, b)" by (cases pr)
    with Some assms that[of a b] show ?thesis
      by (simp add: appended_link_handler split: if_splits)
  qed
  have pn: "project_note row = pnote" and pl: "project_link row = plink"
    by (simp_all add: row build_row_def)
  have a: "project_note row \<noteq> None \<longrightarrow>
            project_link row = u ''nda'' \<and> project_note row = Some ?t
            \<and> is_reasonable_nda_note ?t \<and> \<not> is_decline ?t \<and> \<not> is_valid_http_url ?t
            \<and> lower ?t \<noteq> u ''nda''"
  proof
    assume "project_note row \<noteq> None"
    then obtain n where n: "pnote = Some n" using pn by (cases pnote) auto
    from link_fields_note[OF lf[unfolded n]] show
      "project_link row = u ''nda'' \<and> project_note row = Some ?t
       \<and> is_reasonable_nda_note ?t \<and> \<not> is_decline ?t \<and> \<not> is_valid_http_url ?t
       \<and> lower ?t \<noteq> u ''nda''"
      using pn pl n by simp
  qed
  have b: "is_decline ?t \<or> is_valid_http_url ?t \<or> lower ?t = u ''nda'' \<Longrightarrow> project_note row = None"
    using link_fields_no_note[of ?t] lf pn by auto
  show ?thesis using a b by blast
qed

lemma sample_env_fields:
  "services (sample_env sv st) = sv"
  "append_row (sample_env sv st) = (\<lambda>r. st)"
  "scoring_msg_id (sample_env sv st) = Some 19"
  "admin_user_id (sample_env sv st) = 1"
  by (simp_all add: sample_env_def)

lemma parse_validate_calm:
  "parse_validate (sample_services a b) (u ''calm'')
     = Returned \<lparr>criteria =
         [\<lparr>name = u ''Practical AI Application'', score_0_10 = 5, rationale = u ''Clear example.''\<rparr>,
          \<lparr>name = u ''Practical AI Application'', score_0_10 = 6, rationale = u ''Clear example.''\<rparr>,
          \<lparr>name = u ''Practical AI Application'', score_0_10 = 4, rationale = u ''Clear example.''\<rparr>],
         overall_score_0_10 = 5, hot = False, summary_1_2_lines = u ''Solid.''\<rparr>"
  by (simp add: sample_services_def sample_scores_def sample_criterion_def validate_defs u_def)

lemma call_sample:
  "call (sample_services a b) lg (user_prompt sv p) = a"
  "call (sample_services a b) lg (user_prompt sv p @ retry_suffix) = b"
  by (simp_all add: sample_services_def last_user_prompt last_retry_prompt)

lemma score_candidate_calm:
  "score_candidate (sample_services (Returned (u ''calm'')) b) p
     = ([user_prompt (sample_services (Returned (u ''calm'')) b) p],
        parse_validate (sample_services (Returned (u ''calm'')) b) (u ''calm''))"
  by (simp add: score_candidate_def Let_def call_sample parse_validate_calm)

theorem note_only_for_nda_text_witness:
  "build_row (sample_env (sample_services (Returned (u ''calm'')) (Raised [])) (Returned ()))
      (sample_message (u ''nda: built a RAG pipeline'')) (sample_fsm link)
      (u ''nda'') (Some (u ''nda: built a RAG pipeline''))
      (run_scoring (sample_env (sample_services (Returned (u ''calm'')) (Raised [])) (Returned ()))
         (build_payload (sample_message (u ''nda: built a RAG pipeline'')) (sample_fsm link) (u ''nda'')))
     \<in> set (appended (snd (link_handler
         (sample_env (sample_services (Returned (u ''calm'')) (Raised [])) (Returned ()))
         (sample_message (u ''nda: built a RAG pipeline'')) (sample_fsm link))))
   \<and> project_note (build_row (sample_env (sample_services (Returned (u ''calm'')) (Raised [])) (Returned ()))
      (sample_message (u ''nda: built a RAG pipeline'')) (sample_fsm link)
      (u ''nda'') (Some (u ''nda: built a RAG pipeline''))
      (run_scoring (sample_env (sample_services (Returned (u ''calm'')) (Raised [])) (Returned ()))
         (build_payload (sample_message (u ''nda: built a RAG pipeline'')) (sample_fsm link) (u ''nda''))))
     \<noteq> None
   \<and> project_link (build_row (sample_env (sample_services (Returned (u ''calm'')) (Raised [])) (Returned ()))
      (sample_message (u ''nda: built a RAG pipeline'')) (sample_fsm link)
      (u ''nda'') (Some (u ''nda: built a RAG pipeline''))
      (run_scoring (sample_env (sample_services (Returned (u ''calm'')) (Raised [])) (Returned ()))
         (build_payload (sample_message (u ''nda: built a RAG pipeline'')) (sample_fsm link) (u ''nda''))))
     = u ''nda''
   \<and> is_reasonable_nda_note (norm_str (msg_text (sample_message (u ''nda: built a RAG pipeline''))))"
proof -
  let ?env = "sample_env (sample_services (Returned (u ''calm'')) (Raised [])) (Returned ())"
  let ?m = "sample_message (u ''nda: built a RAG pipeline'')"
  let ?row = "build_row ?env ?m (sample_fsm link) (u ''nda'') (Some (u ''nda: built a RAG pipeline''))
      (run_scoring ?env (build_payload ?m (sample_fsm link) (u ''nda'')))"
  have n: "norm_str (msg_text ?m) = u ''nda: built a RAG pipeline''"
    by (simp add: sample_message_def text_defs)
  have lf: "link_fields (u ''nda: built a RAG pipeline'') = Some (u ''nda'', Some (u ''nda: built a RAG pipeline''))"
    by (simp add: text_defs)
  have ne: "u ''nda: built a RAG pipeline'' \<noteq> []" by (simp add: u_def)
  have h: "?row \<in> set (appended (snd (link_handler ?env ?m (sample_fsm link))))"
    by (simp add: appended_link_handler n lf ne)
  have pn: "project_note ?row \<noteq> None" by (simp add: build_row_def)
  from note_only_for_nda_text[OF h] h pn show ?thesis by blast
qed

section \<open>URL before NDA note\<close>

lemma is_valid_http_url_strip: "is_valid_http_url (strip t) = is_valid_http_url t"
  by (simp add: is_valid_http_url_def strip_strip)

lemma startswith_hd:
  assumes "startswith t (a # p)"
  shows "\<exists>r. t = a # r"
  using assms by (cases t) (simp_all add: startswith_def)

lemma url_not_decline:
  assumes "startswith t (u ''http://'') \<or> startswith t (u ''https://'')"
  shows "\<not> is_decline t"
proof -
  from assms obtain r where "t = 104 # r"
    by (auto simp: u_def dest: startswith_hd)
  then show ?thesis
    by (simp add: is_decline_def lower_def lower_cp_def replace_cp_def ne_hochu_def
        ne_hochu_sp_def net_def u_def)
qed

text \<open>
  C8. An input at the link step that starts with \<open>http://\<close> or \<open>https://\<close> and is also a
  reasonable NDA note (at least 8 code points, at least 2 words) is recorded as a URL: the
  row's project link is the input text itself, trimmed as the handler trims every input, and
  there is no project note.
\<close>

theorem url_precedes_nda_note:
  assumes "msg_text m = Some raw"
      and "is_valid_http_url raw"
      and "is_reasonable_nda_note raw"
  shows "link_fields (strip (norm_str (msg_text m))) = Some (strip raw, None)
       \<and> (\<exists>row. appended (snd (link_handler env m s)) = [row]
              \<and> project_link row = strip raw \<and> project_note row = None)"
proof -
  have n: "norm_str (msg_text m) = strip raw" by (simp add: assms(1) norm_str_def)
  have sw: "startswith (strip raw) (u ''http://'') \<or> startswith (strip raw) (u ''https://'')"
    using assms(2) by (simp add: is_valid_http_url_def Let_def)
  have nd: "\<not> is_decline (strip raw)" by (rule url_not_decline[OF sw])
  have url: "is_valid_http_url (strip raw)" using assms(2) by (simp add: is_valid_http_url_strip)
  have lf: "link_fields (strip raw) = Some (strip raw, None)"
    by (simp add: link_fields_def nd url)
  have ne: "strip raw \<noteq> []" using sw by (auto simp: startswith_def u_def)
  show ?thesis
    by (simp add: appended_link_handler n lf ne strip_strip build_row_def)
qed

theorem url_precedes_nda_note_witness:
  "msg_text (sample_message (u ''https://x.com my demo'')) = Some (u ''https://x.com my demo'')
   \<and> is_valid_http_url (u ''https://x.com my demo'')
   \<and> is_reasonable_nda_note (u ''https://x.com my demo'')
   \<and> (\<exists>row. appended (snd (link_handler
          (sample_env (sample_services (Returned (u ''calm'')) (Raised [])) (Returned ()))
          (sample_message (u ''https://x.com my demo'')) (sample_fsm link))) = [row]
        \<and> project_link row = strip (u ''https://x.com my demo'') \<and> project_note row = None)"
proof -
  have h1: "msg_text (sample_message (u ''https://x.com my demo'')) = Some (u ''https://x.com my demo'')"
    by (simp add: sample_message_def)
  have h2: "is_valid_http_url (u ''https://x.com my demo'')"
    by (simp add: text_defs)
  have h3: "is_reasonable_nda_note (u ''https://x.com my demo'')"
    by (simp add: text_defs)
  from url_precedes_nda_note[OF h1 h2 h3] h1 h2 h3 show ?thesis by blast
qed

section \<open>When the admin alert is sent\<close>

lemma alert_condition:
  assumes "norm_str (msg_text m) \<noteq> []"
      and "link_fields (strip (norm_str (msg_text m))) = Some (plink, pnote)"
  shows "alerts (snd (link_handler env m s)) \<noteq> [] \<longleftrightarrow>
           sc_scoring_failed (run_scoring env (build_payload m s plink))
           \<or> (\<exists>e. append_row env (build_row env m s plink pnote (run_scoring env (build_payload m s plink)))
                     = Raised e \<and> take 500 e \<noteq> [])
           \<or> sc_top_candidate (run_scoring env (build_payload m s plink))"
  by (auto simp: link_handler_accepted[OF assms] Let_def alerts_simps alerts_append
      alerts_run_scoring alerts_send_replace truthy_def try_append_def split: outcome.splits)

lemma run_scoring_calm:
  "run_scoring (sample_env (sample_services (Returned (u ''calm'')) b) st) p =
     \<lparr>sc_scoring_failed = False, sc_error = None, sc_scores_json = u ''<json>'',
      sc_overall_score = 5, sc_top_candidate = False,
      sc_events = [Typing, Answer ScoringNotice,
                   OracleCall (user_prompt (sample_services (Returned (u ''calm'')) b) p),
                   DeleteMessage 19]\<rparr>"
  by (simp add: run_scoring_def sample_env_fields score_candidate_calm parse_validate_calm)
     (simp add: sample_services_def)

text \<open>
  C5. The claim asks for an alert whenever the append to the row store failed. The handler
  tests the truth value of the stored error text instead, so an append that raises an
  exception with an empty message is followed by no alert: here scoring succeeds without the
  top-candidate flag, \<open>append_row\<close> raises with the empty message, the row was handed over, the
  user gets the completion message, and no alert is attempted.
\<close>

theorem append_failure_without_alert:
  "append_row (sample_env (sample_services (Returned (u ''calm'')) (Raised [])) (Raised []))
     (build_row (sample_env (sample_services (Returned (u ''calm'')) (Raised [])) (Raised []))
        (sample_message (u ''https://x.com'')) (sample_fsm link) (u ''https://x.com'') None
        (run_scoring (sample_env (sample_services (Returned (u ''calm'')) (Raised [])) (Raised []))
           (build_payload (sample_message (u ''https://x.com'')) (sample_fsm link) (u ''https://x.com''))))
     = Raised []
   \<and> appended (snd (link_handler (sample_env (sample_services (Returned (u ''calm'')) (Raised [])) (Raised []))
        (sample_message (u ''https://x.com'')) (sample_fsm link)))
     = [build_row (sample_env (sample_services (Returned (u ''calm'')) (Raised [])) (Raised []))
        (sample_message (u ''https://x.com'')) (sample_fsm link) (u ''https://x.com'') None
        (run_scoring (sample_env (sample_services (Returned (u ''calm'')) (Raised [])) (Raised []))
           (build_payload (sample_message (u ''https://x.com'')) (sample_fsm link) (u ''https://x.com'')))]
   \<and> alerts (snd (link_handler (sample_env (sample_services (Returned (u ''calm'')) (Raised [])) (Raised []))
        (sample_message (u ''https://x.com'')) (sample_fsm link))) = []
   \<and> answered (snd (link_handler (sample_env (sample_services (Returned (u ''calm'')) (Raised [])) (Raised []))
        (sample_message (u ''https://x.com'')) (sample_fsm link))) = [ScoringNotice, Done False]"
proof -
  let ?env = "sample_env (sample_services (Returned (u ''calm'')) (Raised [])) (Raised [])"
  let ?m = "sample_message (u ''https://x.com'')"
  have h1: "norm_str (msg_text ?m) \<noteq> []"
    by (simp add: sample_message_def text_defs)
  have h2: "link_fields (strip (norm_str (msg_text ?m))) = Some (u ''https://x.com'', None)"
    by (simp add: sample_message_def text_defs)
  have ap: "append_row ?env r = Raised []" for r by (simp add: sample_env_def)
  have ta: "try_append ?env r = Some []" for r by (simp add: try_append_def ap)
  have adm: "is_admin ?env ?m = False"
    by (simp add: is_admin_def sample_env_def sample_message_def sample_user_def)
  show ?thesis
    by (simp add: link_handler_accepted[OF h1 h2] Let_def ap ta run_scoring_calm truthy_def adm
        alerts_simps alerts_append alerts_send_replace appended_simps appended_append
        appended_send_replace answered_def send_replace_def sample_fsm_def)
qed

section \<open>One retry of the scoring oracle\<close>

lemma two_criteria_rejected:
  assumes "map_of kv (u ''criteria'') = Some (JArr xs)" and "length xs = 2"
  shows "validate_ScoreResult f (JObj kv) = None"
  using assms by (simp add: validate_ScoreResult_def validate_criteria_def)

lemma score_eleven_rejected:
  assumes "map_of kv (u ''criteria'') = Some (JArr xs)"
      and "JObj ckv \<in> set xs" and "map_of ckv (u ''score_0_10'') = Some (JInt 11)"
  shows "validate_ScoreResult f (JObj kv) = None"
proof -
  have "validate_ScoreCriterion f (JObj ckv) = None"
    using assms(3) by (simp add: validate_ScoreCriterion_def as_int_def in_0_10_def split: option.splits)
  then have "\<not> list_all (\<lambda>x. validate_ScoreCriterion f x \<noteq> None) xs"
    using assms(2) by (auto simp: list_all_iff)
  then have "validate_criteria f (JArr xs) = None"
    by (simp add: validate_criteria_def)
  then show ?thesis using assms(1) by (simp add: validate_ScoreResult_def)
qed

text \<open>
  C2. \<open>score_candidate\<close> calls the oracle with the user prompt. If that call raises, the error
  is the result and nothing else is sent. If the returned text parses and validates, its
  \<open>ScoreResult\<close> is the result after that one call. If it does not, exactly one more call is
  made, with the retry instruction appended to the same prompt, and the result is whatever
  that call and the parsing of its output give, error included. There are never more than two
  calls. A document whose criteria list has 2 entries, or holds a criterion with the score 11,
  fails validation, and so leads into the retry.
\<close>

theorem score_candidate_retries_once:
  "(call sv (lang_name p) (user_prompt sv p) = Raised e \<longrightarrow>
      score_candidate sv p = ([user_prompt sv p], Raised e))
   \<and> (call sv (lang_name p) (user_prompt sv p) = Returned txt \<and> parse_validate sv txt = Returned r \<longrightarrow>
      score_candidate sv p = ([user_prompt sv p], Returned r))
   \<and> (call sv (lang_name p) (user_prompt sv p) = Returned txt \<and> parse_validate sv txt = Raised e1 \<longrightarrow>
      score_candidate sv p =
        ([user_prompt sv p, user_prompt sv p @ retry_suffix],
         (case call sv (lang_name p) (user_prompt sv p @ retry_suffix) of
            Raised e2 \<Rightarrow> Raised e2
          | Returned txt2 \<Rightarrow> parse_validate sv txt2)))
   \<and> length (fst (score_candidate sv p)) \<le> 2
   \<and> (json_loads sv txt = Returned (JObj kv) \<and> map_of kv (u ''criteria'') = Some (JArr xs)
        \<and> (length xs = 2
            \<or> (\<exists>ckv. JObj ckv \<in> set xs \<and> map_of ckv (u ''score_0_10'') = Some (JInt 11))) \<longrightarrow>
      parse_validate sv txt = Raised (validation_error sv (JObj kv)))"
proof -
  have a: "call sv (lang_name p) (user_prompt sv p) = Raised e \<Longrightarrow>
      score_candidate sv p = ([user_prompt sv p], Raised e)"
    by (simp add: score_candidate_def Let_def)
  have b: "call sv (lang_name p) (user_prompt sv p) = Returned txt \<Longrightarrow> parse_validate sv txt = Returned r \<Longrightarrow>
      score_candidate sv p = ([user_prompt sv p], Returned r)"
    by (simp add: score_candidate_def Let_def)
  have c: "call sv (lang_name p) (user_prompt sv p) = Returned txt \<Longrightarrow> parse_validate sv txt = Raised e1 \<Longrightarrow>
      score_candidate sv p =
        ([user_prompt sv p, user_prompt sv p @ retry_suffix],
         (case call sv (lang_name p) (user_prompt sv p @ retry_suffix) of
            Raised e2 \<Rightarrow> Raised e2
          | Returned txt2 \<Rightarrow> parse_validate sv txt2))"
    by (simp add: score_candidate_def Let_def split: outcome.splits)
  have d: "length (fst (score_candidate sv p)) \<le> 2"
    by (simp add: score_candidate_def Let_def split: outcome.splits)
  have e: "json_loads sv txt = Returned (JObj kv) \<Longrightarrow> map_of kv (u ''criteria'') = Some (JArr xs) \<Longrightarrow>
        length xs = 2 \<or> (\<exists>ckv. JObj ckv \<in> set xs \<and> map_of ckv (u ''score_0_10'') = Some (JInt 11)) \<Longrightarrow>
      parse_validate sv txt = Raised (validation_error sv (JObj kv))"
    using two_criteria_rejected[of kv xs "str_as_int sv"] score_eleven_rejected[of kv xs _ "str_as_int sv"]
    by (auto simp: parse_validate_def)
  show ?thesis using a b c d e by blast
qed

lemma parse_validate_hot:
  "parse_validate (sample_services a b) (u ''hot'')
     = Returned \<lparr>criteria =
         [\<lparr>name = u ''Practical AI Application'', score_0_10 = 9, rationale = u ''Clear example.''\<rparr>,
          \<lparr>name = u ''Practical AI Application'', score_0_10 = 8, rationale = u ''Clear example.''\<rparr>,
          \<lparr>name = u ''Practical AI Application'', score_0_10 = 7, rationale = u ''Clear example.''\<rparr>],
         overall_score_0_10 = 8, hot = True, summary_1_2_lines = u ''Solid.''\<rparr>"
  by (simp add: sample_services_def sample_scores_def sample_criterion_def validate_defs u_def)

theorem score_candidate_retries_once_witness:
  "call (sample_services (Returned (u ''two'')) (Returned (u ''hot''))) English
      (user_prompt (sample_services (Returned (u ''two'')) (Returned (u ''hot''))) 
         (build_payload (sample_message (u ''https://x.com'')) (sample_fsm link) (u ''https://x.com'')))
     = Returned (u ''two'')
   \<and> json_loads (sample_services (Returned (u ''two'')) (Returned (u ''hot''))) (u ''two'')
     = Returned (JObj [(u ''criteria'', JArr [sample_criterion 9, sample_criterion 8]),
                       (u ''overall_score_0_10'', JInt 8), (u ''hot'', JBool True),
                       (u ''summary_1_2_lines'', JStr (u ''Solid.''))])
   \<and> parse_validate (sample_services (Returned (u ''two'')) (Returned (u ''hot''))) (u ''two'')
     = Raised (u ''validation error'')
   \<and> score_candidate (sample_services (Returned (u ''two'')) (Returned (u ''hot'')))
        (build_payload (sample_message (u ''https://x.com'')) (sample_fsm link) (u ''https://x.com''))
     = ([user_prompt (sample_services (Returned (u ''two'')) (Returned (u ''hot'')))
           (build_payload (sample_message (u ''https://x.com'')) (sample_fsm link) (u ''https://x.com'')),
         user_prompt (sample_services (Returned (u ''two'')) (Returned (u ''hot'')))
           (build_payload (sample_message (u ''https://x.com'')) (sample_fsm link) (u ''https://x.com''))
         @ retry_suffix],
        Returned \<lparr>criteria =
         [\<lparr>name = u ''Practical AI Application'', score_0_10 = 9, rationale = u ''Clear example.''\<rparr>,
          \<lparr>name = u ''Practical AI Application'', score_0_10 = 8, rationale = u ''Clear example.''\<rparr>,
          \<lparr>name = u ''Practical AI Application'', score_0_10 = 7, rationale = u ''Clear example.''\<rparr>],
         overall_score_0_10 = 8, hot = True, summary_1_2_lines = u ''Solid.''\<rparr>)"
proof -
  let ?sv = "sample_services (Returned (u ''two'')) (Returned (u ''hot''))"
  let ?p = "build_payload (sample_message (u ''https://x.com'')) (sample_fsm link) (u ''https://x.com'')"
  let ?kv = "[(u ''criteria'', JArr [sample_criterion 9, sample_criterion 8]),
              (u ''overall_score_0_10'', JInt 8), (u ''hot'', JBool True),
              (u ''summary_1_2_lines'', JStr (u ''Solid.''))]"
  have lg: "lang_name ?p = English"
    by (simp add: lang_name_def build_payload_def get_answers_def sample_fsm_def is_cyrillic_def u_def)
  have h1: "call ?sv (lang_name ?p) (user_prompt ?sv ?p) = Returned (u ''two'')"
    by (simp add: call_sample)
  have h2: "json_loads ?sv (u ''two'') = Returned (JObj ?kv)"
    by (simp add: sample_services_def sample_scores_def)
  have h3: "map_of ?kv (u ''criteria'') = Some (JArr [sample_criterion 9, sample_criterion 8])"
    by simp
  have h4: "length [sample_criterion 9, sample_criterion 8] = 2" by simp
  have ve: "validation_error ?sv j = u ''validation error''" for j
    by (simp add: sample_services_def)
  note t = score_candidate_retries_once[of ?sv ?p _ "u ''two''" _ "u ''validation error''" ?kv
      "[sample_criterion 9, sample_criterion 8]"]
  from t h2 h3 h4 have pv: "parse_validate ?sv (u ''two'') = Raised (u ''validation error'')"
    by (simp add: ve)
  from t h1 pv have "score_candidate ?sv ?p =
        ([user_prompt ?sv ?p, user_prompt ?sv ?p @ retry_suffix],
         (case call ?sv (lang_name ?p) (user_prompt ?sv ?p @ retry_suffix) of
            Raised e2 \<Rightarrow> Raised e2
          | Returned txt2 \<Rightarrow> parse_validate ?sv txt2))"
    by blast
  then have sc: "score_candidate ?sv ?p =
        ([user_prompt ?sv ?p, user_prompt ?sv ?p @ retry_suffix], parse_validate ?sv (u ''hot''))"
    by (simp add: call_sample)
  show ?thesis using h1 h2 pv sc lg by (simp add: parse_validate_hot)
qed

section \<open>Bare domains at the link step\<close>

lemma startswith_lower: "startswith t p \<Longrightarrow> startswith (lower t) (lower p)"
  by (simp add: startswith_def lower_def) (metis take_map)

lemma lower_http: "lower (u ''http://'') = u ''http://''" "lower (u ''https://'') = u ''https://''"
  by (simp_all add: lower_def lower_cp_def u_def)

lemma dot_in_lower: "46 \<in> set (lower t) \<longleftrightarrow> 46 \<in> set t"
  by (auto simp: lower_def lower_cp_dot)

lemma space_in_lower: "32 \<in> set t \<Longrightarrow> 32 \<in> set (lower t)"
  by (force simp: lower_def lower_cp_def)

lemma domain_facts:
  assumes "looks_like_domain_without_scheme raw"
  shows "lower (strip raw) \<noteq> []"
    and "\<not> startswith (lower (strip raw)) (u ''http://'')"
    and "\<not> startswith (lower (strip raw)) (u ''https://'')"
    and "32 \<notin> set (lower (strip raw))"
    and "46 \<in> set (lower (strip raw))"
proof -
  let ?t = "lower (strip raw)"
  from assms show "?t \<noteq> []" "\<not> startswith ?t (u ''http://'')" "\<not> startswith ?t (u ''https://'')"
    "32 \<notin> set ?t"
    by (auto simp: looks_like_domain_without_scheme_def Let_def split: if_splits)
  from assms have "46 \<in> set ?t \<or> contains ?t (u ''.com/'') \<or> contains ?t (u ''.ru/'')
      \<or> contains ?t (u ''.io/'') \<or> contains ?t (u ''.ai/'') \<or> contains ?t (u ''.dev/'')"
    by (auto simp: looks_like_domain_without_scheme_def Let_def split: if_splits)
  then show "46 \<in> set ?t"
    by (auto dest!: contains_set simp: u_def)
qed

lemma dotted_not_decline:
  assumes "46 \<in> set (lower t)" and "32 \<notin> set (lower t)"
  shows "\<not> is_decline t"
proof -
  have r: "replace_cp 32 [] (lower t) = lower t" by (rule replace_cp_absent[OF assms(2)])
  have "lower t \<notin> set [ne_hochu, ne_hochu_sp, u ''declined'', net, u ''skip'']"
    using assms(1) by (auto simp: ne_hochu_def ne_hochu_sp_def net_def u_def)
  then show ?thesis by (simp add: is_decline_def r)
qed

lemma one_word_not_note:
  assumes "strip t = t" and "32 \<notin> set t" and "10 \<notin> set t"
  shows "\<not> is_reasonable_nda_note t"
  using assms by (simp add: is_reasonable_nda_note_def Let_def replace_cp_absent split_cp_no_sep)

text \<open>
  C3, as stated, fails: the two-line text \<open>my\<close>, line break, \<open>site.com\<close> has no space, has a dot and
  ends with \<open>.com\<close>, so it counts as a domain without scheme; yet the link step splits it at
  the line break into two words, accepts it as an NDA note, appends a row and ends the
  session.
\<close>

theorem two_line_domain_is_accepted:
  "looks_like_domain_without_scheme [109, 121, 10, 115, 105, 116, 101, 46, 99, 111, 109]
   \<and> link_fields [109, 121, 10, 115, 105, 116, 101, 46, 99, 111, 109]
       = Some (u ''nda'', Some [109, 121, 10, 115, 105, 116, 101, 46, 99, 111, 109])
   \<and> link_handler (sample_env (sample_services (Returned (u ''calm'')) (Raised [])) (Returned ()))
        (sample_message [109, 121, 10, 115, 105, 116, 101, 46, 99, 111, 109]) (sample_fsm link)
      \<noteq> (sample_fsm link, [Answer BadFormat])
   \<and> cur_state (fst (link_handler (sample_env (sample_services (Returned (u ''calm'')) (Raised [])) (Returned ()))
        (sample_message [109, 121, 10, 115, 105, 116, 101, 46, 99, 111, 109]) (sample_fsm link))) = None
   \<and> map project_note (appended (snd (link_handler
        (sample_env (sample_services (Returned (u ''calm'')) (Raised [])) (Returned ()))
        (sample_message [109, 121, 10, 115, 105, 116, 101, 46, 99, 111, 109]) (sample_fsm link))))
      = [Some [109, 121, 10, 115, 105, 116, 101, 46, 99, 111, 109]]"
proof -
  let ?t = "[109, 121, 10, 115, 105, 116, 101, 46, 99, 111, 109] :: ustring"
  let ?env = "sample_env (sample_services (Returned (u ''calm'')) (Raised [])) (Returned ())"
  have d: "looks_like_domain_without_scheme ?t"
    by (simp add: looks_like_domain_without_scheme_def text_defs)
  have n: "norm_str (msg_text (sample_message ?t)) = ?t"
    by (simp add: sample_message_def text_defs)
  have lf: "link_fields ?t = Some (u ''nda'', Some ?t)"
    by (simp add: text_defs)
  have ap: "appended (snd (link_handler ?env (sample_message ?t) (sample_fsm link)))
      = [build_row ?env (sample_message ?t) (sample_fsm link) (u ''nda'') (Some ?t)
           (run_scoring ?env (build_payload (sample_message ?t) (sample_fsm link) (u ''nda'')))]"
    by (simp add: appended_link_handler n lf)
  have h1: "norm_str (msg_text (sample_message ?t)) \<noteq> []" by (simp add: n)
  have h2: "link_fields (strip (norm_str (msg_text (sample_message ?t)))) = Some (u ''nda'', Some ?t)"
    using lf strip_norm_str[of "msg_text (sample_message ?t)"] by (simp add: n)
  have st: "cur_state (fst (link_handler ?env (sample_message ?t) (sample_fsm link))) = None"
    by (simp add: link_handler_accepted[OF h1 h2] Let_def)
  have neq: "link_handler ?env (sample_message ?t) (sample_fsm link) \<noteq> (sample_fsm link, [Answer BadFormat])"
    using st by (auto simp: sample_fsm_def)
  show ?thesis using d lf st neq by (simp add: ap build_row_def)
qed

text \<open>
  C3, amended. An input that looks like a domain without scheme and whose trimmed text holds
  no line break is rejected at the link step: the handler answers with the list of accepted
  formats and nothing else happens; the session, still at the link step, is unchanged.
\<close>

theorem bare_domain_is_rejected:
  assumes "msg_text m = Some raw"
      and "looks_like_domain_without_scheme raw"
      and "10 \<notin> set (strip raw)"
  shows "link_handler env m s = (s, [Answer BadFormat])"
proof -
  let ?t = "strip raw"
  note d = domain_facts[OF assms(2)]
  have n: "norm_str (msg_text m) = ?t" by (simp add: assms(1) norm_str_def)
  have ne: "?t \<noteq> []" using d(1) by (auto simp: lower_def)
  have sp: "32 \<notin> set ?t" using d(4) space_in_lower by blast
  have nd: "\<not> is_decline ?t" by (rule dotted_not_decline[OF d(5) d(4)])
  have nu: "\<not> is_valid_http_url ?t"
    using d(2,3) startswith_lower[of ?t "u ''http://''"] startswith_lower[of ?t "u ''https://''"]
    by (auto simp: is_valid_http_url_def Let_def strip_strip lower_http)
  have nn: "lower ?t \<noteq> u ''nda''" using d(5) by (auto simp: u_def)
  have nr: "\<not> is_reasonable_nda_note ?t"
    by (rule one_word_not_note[OF strip_strip sp assms(3)])
  have lf: "link_fields ?t = None" by (simp add: link_fields_def Let_def nd nu nn nr)
  show ?thesis by (simp add: link_handler_def n ne strip_strip lf)
qed

theorem bare_domain_is_rejected_witness:
  "msg_text (sample_message (u ''github.com'')) = Some (u ''github.com'')
   \<and> looks_like_domain_without_scheme (u ''github.com'')
   \<and> 10 \<notin> set (strip (u ''github.com''))
   \<and> link_handler (sample_env (sample_services (Returned (u ''calm'')) (Raised [])) (Returned ()))
        (sample_message (u ''github.com'')) (sample_fsm link)
      = (sample_fsm link, [Answer BadFormat])"
proof -
  have h1: "msg_text (sample_message (u ''github.com'')) = Some (u ''github.com'')"
    by (simp add: sample_message_def)
  have h2: "looks_like_domain_without_scheme (u ''github.com'')"
    by (simp add: looks_like_domain_without_scheme_def text_defs)
  have h3: "10 \<notin> set (strip (u ''github.com''))"
    by (simp add: text_defs)
  from bare_domain_is_rejected[OF h1 h2 h3] h1 h2 h3 show ?thesis by blast
qed

section \<open>The admin statistics of top candidates\<close>

lemma collect_top: "collect True rows = top_rows rows"
  by (induction rows) (simp_all add: top_rows_def norm_entry_def Let_def)

lemma collect_all: "collect False rows = map norm_entry rows"
  by (induction rows) simp_all

lemma top_rows_all_flagged: "filter n_top_candidate (top_rows rows) = top_rows rows"
  by (simp add: top_rows_def)

lemma sorted_reverse_descending: "sorted (rev (map k (sorted_reverse k xs)))"
  by (simp add: sorted_reverse_def rev_map)

lemma mset_sorted_reverse: "mset (sorted_reverse k xs) = mset xs"
  by (simp add: sorted_reverse_def)

text \<open>
  C6. With the filter set, \<open>_render_admin_stats\<close> gives what the summary in the words of the
  specification gives: nothing but the generic text for an empty store; the text about missing
  top candidates when no fetched row has the flag; otherwise the count, the average, the
  number of top candidates, the number of scoring failures and the top 3, all taken over the
  flagged rows only. The order of the top 3 is descending by score and then by timestamp, and
  sorting neither drops nor invents a row.
\<close>

theorem top_view_aggregates_selected_rows:
  "render_admin_stats round1 True rows = summarize_top round1 rows
   \<and> render_admin_stats round1 only_top [] = NoRuns
   \<and> sorted (rev (map rank_key (sorted_reverse rank_key xs)))
   \<and> mset (sorted_reverse rank_key xs) = mset xs"
proof -
  have "render_admin_stats round1 True rows = summarize_top round1 rows"
  proof (cases "rows = []")
    case True
    then show ?thesis by (simp add: render_admin_stats_def summarize_top_def)
  next
    case False
    show ?thesis
    proof (cases "top_rows rows = []")
      case True
      with False show ?thesis
        by (simp add: render_admin_stats_def summarize_top_def collect_top)
    next
      case ne: False
      then have "max (length (top_rows rows)) 1 = length (top_rows rows)"
        by (cases "top_rows rows") simp_all
      with False ne show ?thesis
        by (simp add: render_admin_stats_def summarize_top_def collect_top Let_def
            top_rows_all_flagged)
    qed
  qed
  moreover have "render_admin_stats round1 only_top [] = NoRuns"
    by (simp add: render_admin_stats_def)
  ultimately show ?thesis
    by (simp add: sorted_reverse_descending mset_sorted_reverse)
qed

lemmas stats_defs = norm_entry_def get_or_def to_bool_def to_int_def py_int_def is_digit_def digits_val_def
  sample_row_def rank_key_def

lemma sample_entries:
  "map norm_entry sample_rows =
     [\<lparr>n_top_candidate = True, n_overall = 8, n_scoring_failed = False, n_display = u ''@eve'',
       n_ts = u ''2025-01-02T10:00:00Z''\<rparr>,
      \<lparr>n_top_candidate = False, n_overall = 6, n_scoring_failed = False, n_display = u ''@bob'',
       n_ts = u ''2025-01-03T10:00:00Z''\<rparr>,
      \<lparr>n_top_candidate = True, n_overall = 10, n_scoring_failed = False, n_display = u ''@ann'',
       n_ts = u ''2025-01-01T10:00:00Z''\<rparr>]"
  by (simp add: sample_rows_def stats_defs text_defs)

theorem top_view_aggregates_selected_rows_witness:
  "render_admin_stats Pair True sample_rows =
     Stats True 2 (18, 2) 2 0
       [\<lparr>n_top_candidate = True, n_overall = 10, n_scoring_failed = False, n_display = u ''@ann'',
         n_ts = u ''2025-01-01T10:00:00Z''\<rparr>,
        \<lparr>n_top_candidate = True, n_overall = 8, n_scoring_failed = False, n_display = u ''@eve'',
         n_ts = u ''2025-01-02T10:00:00Z''\<rparr>]
   \<and> render_admin_stats Pair True
        [sample_row (u ''bob'') (u ''6'') (u ''FALSE'') (u ''2025-01-03T10:00:00Z'')] = NoTopCandidates
   \<and> render_admin_stats Pair True [] = NoRuns"
proof -
  let ?one = "[sample_row (u ''bob'') (u ''6'') (u ''FALSE'') (u ''2025-01-03T10:00:00Z'')]"
  have t1: "top_rows sample_rows =
     [\<lparr>n_top_candidate = True, n_overall = 8, n_scoring_failed = False, n_display = u ''@eve'',
       n_ts = u ''2025-01-02T10:00:00Z''\<rparr>,
      \<lparr>n_top_candidate = True, n_overall = 10, n_scoring_failed = False, n_display = u ''@ann'',
       n_ts = u ''2025-01-01T10:00:00Z''\<rparr>]"
    by (simp add: top_rows_def sample_entries)
  have t2: "top_rows ?one = []"
    by (simp add: top_rows_def stats_defs text_defs)
  have ne: "sample_rows \<noteq> []" by (simp add: sample_rows_def)
  have s1: "summarize_top Pair sample_rows =
     Stats True 2 (18, 2) 2 0
       [\<lparr>n_top_candidate = True, n_overall = 10, n_scoring_failed = False, n_display = u ''@ann'',
         n_ts = u ''2025-01-01T10:00:00Z''\<rparr>,
        \<lparr>n_top_candidate = True, n_overall = 8, n_scoring_failed = False, n_display = u ''@eve'',
         n_ts = u ''2025-01-02T10:00:00Z''\<rparr>]"
    by (simp add: summarize_top_def ne t1 sorted_reverse_def rank_key_def)
  have s2: "summarize_top Pair ?one = NoTopCandidates"
    by (simp add: summarize_top_def t2)
  from top_view_aggregates_selected_rows[of Pair sample_rows True]
       top_view_aggregates_selected_rows[of Pair ?one True] s1 s2
  show ?thesis by simp
qed

end
